theory Spec2Isabelle
  imports Main "HOL-Library.AList" "HOL-Library.Sublist" "HOL-Library.Word"
begin

section \<open>Outcomes of a call\<close>

text \<open>
  A call of the aggregate controller either returns, panics (a Go run-time panic such as
  an assignment to an entry of a nil map or a nil pointer dereference), or blocks for
  ever on a lock that nobody is going to release.
\<close>

datatype 'a outcome = Returns 'a | Panics | Blocks

text \<open>Sequencing: what follows a call runs only when the call returns.\<close>

fun and_then :: "'a outcome \<Rightarrow> ('a \<Rightarrow> 'b outcome) \<Rightarrow> 'b outcome" where
  "and_then (Returns x) f = f x"
| "and_then Panics f = Panics"
| "and_then Blocks f = Blocks"

text \<open>Dereferencing: \<open>None\<close> is the nil pointer, whose dereference panics.\<close>

fun deref :: "'a option \<Rightarrow> 'a outcome" where
  "deref None = Panics"
| "deref (Some x) = Returns x"

section \<open>Locks\<close>

text \<open>
  Go's \<^verbatim>\<open>sync.RWMutex\<close> is not reentrant: \<^verbatim>\<open>Lock\<close> waits while the lock is held
  by a writer or by readers, \<^verbatim>\<open>RLock\<close> waits while it is held by a writer, whoever the
  holder is. The functions return \<open>None\<close> where the caller has to wait.
\<close>

record RWMutex =
  writer :: bool
  readers :: nat

definition RWMutex_Lock :: "RWMutex \<Rightarrow> RWMutex option" where
  "RWMutex_Lock m = (if writer m \<or> 0 < readers m then None else Some (m\<lparr>writer := True\<rparr>))"

definition RWMutex_Unlock :: "RWMutex \<Rightarrow> RWMutex" where
  "RWMutex_Unlock m = m\<lparr>writer := False\<rparr>"

definition RWMutex_RLock :: "RWMutex \<Rightarrow> RWMutex option" where
  "RWMutex_RLock m = (if writer m then None else Some (m\<lparr>readers := Suc (readers m)\<rparr>))"

definition RWMutex_RUnlock :: "RWMutex \<Rightarrow> RWMutex" where
  "RWMutex_RUnlock m = m\<lparr>readers := readers m - 1\<rparr>"

definition unlocked :: RWMutex where
  "unlocked = \<lparr>writer = False, readers = 0\<rparr>"

section \<open>Errors\<close>

text \<open>
  A backend error is an opaque value, identified by its message. The aggregated error
  \<^verbatim>\<open>errs\<close> of the query operations is nil (\<open>None\<close>) or a
  \<^verbatim>\<open>*multierror.Error\<close> holding the errors collected so far, in order.
\<close>

type_synonym err = string

type_synonym multierror = "err list"

definition multierror_Append :: "multierror option \<Rightarrow> err \<Rightarrow> multierror option" where
  "multierror_Append errs e = (case errs of None \<Rightarrow> Some [e] | Some es \<Rightarrow> Some (es @ [e]))"

section \<open>The store\<close>

text \<open>
  Services are handled through pointers, and their cluster-keyed maps are reference
  values, so the objects live in a store: a list of objects, an address being an index
  into it. Allocation appends, so an address that is in use is never handed out again.
  A nilable pointer, map or slice is an \<open>addr option\<close>, \<open>None\<close> for nil.

  Modelled from the spec: the declaration of \<^verbatim>\<open>model.Service\<close> is not part
  of the sources. The record keeps the fields the controller reads or writes: the
  hostname, the primary address, ClusterVIPs (\<^verbatim>\<open>map[string]string\<close>) and, in the
  attributes, ClusterExternalAddresses (\<^verbatim>\<open>map[string][]string\<close>) and
  ClusterExternalPorts (\<^verbatim>\<open>map[string]map[uint32]uint32\<close>). The values of the last two
  maps are references themselves (a slice shares its backing array, an inner map is a
  reference), an absent value being the nil slice or the nil map.

  The objects of the store are the services, the \<^verbatim>\<open>map[string]string\<close> maps
  (\<open>OStringMap\<close>), the maps with reference values (\<open>ORefMap\<close>: a key is bound to the address of
  a backing array or of an inner map, or to nil), the backing arrays of address slices
  (\<open>OStrings\<close>; a slice is modelled by its backing array, its window is not) and the inner
  port maps (\<open>OPorts\<close>). Maps are association lists read with \<open>map_of\<close> and written with
  \<open>AList.update\<close>. Go's types guarantee that a pointer leads to an object of its type;
  the store is untyped, and an operation that finds no object of the expected kind at
  an address panics, like the dereference of nil.

  The state also holds the package-level \<^verbatim>\<open>clusterAddressesMutex\<close>.
\<close>

type_synonym addr = nat

type_synonym ptr = "addr option"

record ServiceAttributes =
  ClusterExternalAddresses :: ptr
  ClusterExternalPorts :: ptr

record Service =
  Attributes :: ServiceAttributes
  Hostname :: string
  Address :: string
  ClusterVIPs :: ptr

datatype obj =
    OService Service
  | OStringMap "(string \<times> string) list"
  | ORefMap "(string \<times> ptr) list"
  | OStrings "string list"
  | OPorts "(32 word \<times> 32 word) list"

record state =
  heap :: "obj list"
  clusterAddressesMutex :: bool

definition alloc :: "state \<Rightarrow> obj \<Rightarrow> addr \<times> state" where
  "alloc st ob = (length (heap st), st\<lparr>heap := heap st @ [ob]\<rparr>)"

definition load :: "state \<Rightarrow> addr \<Rightarrow> obj option" where
  "load st a = (if a < length (heap st) then Some (heap st ! a) else None)"

definition store :: "state \<Rightarrow> addr \<Rightarrow> obj \<Rightarrow> state" where
  "store st a ob = st\<lparr>heap := (heap st)[a := ob]\<rparr>"

text \<open>Dereferencing a service pointer; \<open>None\<close> is the nil pointer dereference.\<close>

definition load_Service :: "state \<Rightarrow> ptr \<Rightarrow> Service option" where
  "load_Service st p =
     (case p of
        None \<Rightarrow> None
      | Some a \<Rightarrow> (case load st a of Some (OService sv) \<Rightarrow> Some sv | _ \<Rightarrow> None))"

section \<open>Registry handles\<close>

text \<open>
  Modelled from the spec: \<^verbatim>\<open>serviceregistry.Instance\<close>, the interface of a member
  registry, is not part of the sources. A handle is its identity and, for each
  operation the controller calls, the answer the backend gives: an error or a value
  (the controller never looks at the value when the error is not nil). The answers
  are fixed for the time of one call of the controller, and a member's operation writes
  nothing to the store. A handler is identified by a name. The constant
  \<^verbatim>\<open>serviceregistry.Kubernetes\<close> is the provider name "Kubernetes". Of
  \<^verbatim>\<open>model.Proxy\<close> and \<^verbatim>\<open>model.ServiceInstance\<close>, whose declarations are not part of
  the sources either, the records keep the fields the controller touches; a list of
  instances holds pointers, \<open>None\<close> for nil, and so does the endpoint of an instance.
  A nil slice and an empty slice are the same list.
\<close>

record IstioEndpoint =
  Locality_ClusterID :: string

record ServiceInstance =
  Endpoint :: "IstioEndpoint option"

record NodeMetadata =
  Metadata_ClusterID :: string

record Proxy =
  ID :: string
  Metadata :: "NodeMetadata option"
  ClusterID :: string

type_synonym labels_Collection = "(string \<times> string) list list"

type_synonym handler = string

record Instance =
  Cluster :: string
  Provider :: string
  reg_Services :: "err + ptr list"
  reg_GetService :: "string \<Rightarrow> err + ptr"
  reg_InstancesByPort :: "ptr \<Rightarrow> int \<Rightarrow> labels_Collection \<Rightarrow> err + ServiceInstance option list"
  reg_GetProxyServiceInstances :: "Proxy \<Rightarrow> err + ServiceInstance option list"
  reg_AppendServiceHandler :: "handler \<Rightarrow> err option"
  reg_AppendInstanceHandler :: "handler \<Rightarrow> err option"

definition serviceregistry_Kubernetes :: string where
  "serviceregistry_Kubernetes = ''Kubernetes''"

section \<open>The registry set\<close>

record Controller =
  numK8SRegistries :: int
  registries :: "Instance list"
  storeLock :: RWMutex

definition NewController :: Controller where
  "NewController = \<lparr>numK8SRegistries = 0, registries = [], storeLock = unlocked\<rparr>"

text \<open>
  \<^verbatim>\<open>GetRegistries\<close> takes the read lock, returns the member sequence and releases
  the lock on the way out, which leaves the controller as it was. The cached count is
  a Go \<^verbatim>\<open>int\<close>; it counts members of a list and is never near the end of its range.
\<close>

definition GetRegistries :: "Controller \<Rightarrow> (Instance list \<times> Controller) outcome" where
  "GetRegistries c =
     (case RWMutex_RLock (storeLock c) of
        None \<Rightarrow> Blocks
      | Some l \<Rightarrow> Returns (registries c, c\<lparr>storeLock := RWMutex_RUnlock l\<rparr>))"

fun GetRegistryIndex_loop :: "Instance list \<Rightarrow> string \<Rightarrow> nat \<Rightarrow> nat \<times> bool" where
  "GetRegistryIndex_loop [] clusterID i = (0, False)"
| "GetRegistryIndex_loop (r # rs) clusterID i =
     (if Cluster r = clusterID then (i, True) else GetRegistryIndex_loop rs clusterID (Suc i))"

definition GetRegistryIndex :: "Controller \<Rightarrow> string \<Rightarrow> nat \<times> bool" where
  "GetRegistryIndex c clusterID = GetRegistryIndex_loop (registries c) clusterID 0"

text \<open>The pass that counts the members with a cluster identifier.\<close>

fun count_clusters :: "Instance list \<Rightarrow> int \<Rightarrow> int" where
  "count_clusters [] numK8SClusters = numK8SClusters"
| "count_clusters (r # rs) numK8SClusters =
     count_clusters rs (if Cluster r \<noteq> [] then numK8SClusters + 1 else numK8SClusters)"

text \<open>
  \<^verbatim>\<open>AddRegistry\<close> and \<^verbatim>\<open>DeleteRegistry\<close> hold the write lock from their first
  statement to their return (the deferred \<^verbatim>\<open>Unlock\<close>), and call
  \<^verbatim>\<open>GetRegistries\<close> for the recount while they hold it.
\<close>

definition AddRegistry :: "Controller \<Rightarrow> Instance \<Rightarrow> Controller outcome" where
  "AddRegistry c registry =
     (case RWMutex_Lock (storeLock c) of
        None \<Rightarrow> Blocks
      | Some l \<Rightarrow>
          (let c1 = c\<lparr>storeLock := l\<rparr>;
               c2 = c1\<lparr>registries := registries c1 @ [registry]\<rparr>
           in and_then (GetRegistries c2) (\<lambda>(rs, c3).
                Returns (c3\<lparr>numK8SRegistries := count_clusters rs 0,
                             storeLock := RWMutex_Unlock (storeLock c3)\<rparr>))))"

definition DeleteRegistry :: "Controller \<Rightarrow> string \<Rightarrow> Controller outcome" where
  "DeleteRegistry c clusterID =
     (case RWMutex_Lock (storeLock c) of
        None \<Rightarrow> Blocks
      | Some l \<Rightarrow>
          (let c1 = c\<lparr>storeLock := l\<rparr> in
           if length (registries c1) = 0 then Returns (c1\<lparr>storeLock := RWMutex_Unlock l\<rparr>)
           else
             (case GetRegistryIndex c1 clusterID of
                (index, ok) \<Rightarrow>
                  if \<not> ok then Returns (c1\<lparr>storeLock := RWMutex_Unlock l\<rparr>)
                  else
                    (let c2 = c1\<lparr>registries :=
                                 take index (registries c1) @ drop (index + 1) (registries c1)\<rparr>
                     in and_then (GetRegistries c2) (\<lambda>(rs, c3).
                          Returns (c3\<lparr>numK8SRegistries := count_clusters rs 0,
                                       storeLock := RWMutex_Unlock (storeLock c3)\<rparr>))))))"

section \<open>Deep copies\<close>

text \<open>
  Modelled from the spec: \<^verbatim>\<open>Service.DeepCopy\<close> is not part of the sources. The
  spec calls its result a private deep copy that shares nothing with the backend's
  representation: the copy is a new object, each of its non-nil maps is a new map, and
  each non-nil slice or inner map stored in a map is a new one with the same contents.
  A nil map or slice stays nil.
\<close>

definition copy_leaf :: "state \<Rightarrow> ptr \<Rightarrow> (ptr \<times> state) outcome" where
  "copy_leaf st p =
     (case p of
        None \<Rightarrow> Returns (None, st)
      | Some a \<Rightarrow>
          (case load st a of
             Some (OStrings xs) \<Rightarrow> (case alloc st (OStrings xs) of (a', st1) \<Rightarrow> Returns (Some a', st1))
           | Some (OPorts ps) \<Rightarrow> (case alloc st (OPorts ps) of (a', st1) \<Rightarrow> Returns (Some a', st1))
           | _ \<Rightarrow> Panics))"

fun copy_entries :: "state \<Rightarrow> (string \<times> ptr) list \<Rightarrow> ((string \<times> ptr) list \<times> state) outcome" where
  "copy_entries st [] = Returns ([], st)"
| "copy_entries st ((k, v) # es) =
     and_then (copy_leaf st v) (\<lambda>(v', st1).
     and_then (copy_entries st1 es) (\<lambda>(es', st2).
     Returns ((k, v') # es', st2)))"

definition copy_RefMap :: "state \<Rightarrow> ptr \<Rightarrow> (ptr \<times> state) outcome" where
  "copy_RefMap st p =
     (case p of
        None \<Rightarrow> Returns (None, st)
      | Some a \<Rightarrow>
          (case load st a of
             Some (ORefMap es) \<Rightarrow>
               and_then (copy_entries st es) (\<lambda>(es', st1).
               case alloc st1 (ORefMap es') of (a', st2) \<Rightarrow> Returns (Some a', st2))
           | _ \<Rightarrow> Panics))"

definition copy_StringMap :: "state \<Rightarrow> ptr \<Rightarrow> (ptr \<times> state) outcome" where
  "copy_StringMap st p =
     (case p of
        None \<Rightarrow> Returns (None, st)
      | Some a \<Rightarrow>
          (case load st a of
             Some (OStringMap m) \<Rightarrow>
               (case alloc st (OStringMap m) of (a', st1) \<Rightarrow> Returns (Some a', st1))
           | _ \<Rightarrow> Panics))"

definition DeepCopy :: "state \<Rightarrow> ptr \<Rightarrow> (ptr \<times> state) outcome" where
  "DeepCopy st s =
     and_then (deref (load_Service st s)) (\<lambda>sv.
     and_then (copy_RefMap st (ClusterExternalAddresses (Attributes sv))) (\<lambda>(addrs, st1).
     and_then (copy_RefMap st1 (ClusterExternalPorts (Attributes sv))) (\<lambda>(ports, st2).
     and_then (copy_StringMap st2 (ClusterVIPs sv)) (\<lambda>(vips, st3).
     case alloc st3
            (OService
               \<lparr>Attributes = \<lparr>ClusterExternalAddresses = addrs, ClusterExternalPorts = ports\<rparr>,
                Hostname = Hostname sv,
                Address = Address sv,
                ClusterVIPs = vips\<rparr>) of
       (a', st4) \<Rightarrow> Returns (Some a', st4)))))"

section \<open>Reading and writing the cluster-keyed maps\<close>

text \<open>
  Reading a key of a map gives the zero value (the nil slice, the nil inner map) when
  the key is absent or the map is nil. Assigning to an entry of a nil map panics.
\<close>

definition RefMap_index :: "state \<Rightarrow> ptr \<Rightarrow> string \<Rightarrow> ptr outcome" where
  "RefMap_index st m k =
     (case m of
        None \<Rightarrow> Returns None
      | Some a \<Rightarrow>
          (case load st a of
             Some (ORefMap es) \<Rightarrow> Returns (case map_of es k of None \<Rightarrow> None | Some v \<Rightarrow> v)
           | _ \<Rightarrow> Panics))"

definition RefMap_assign :: "state \<Rightarrow> ptr \<Rightarrow> string \<Rightarrow> ptr \<Rightarrow> state outcome" where
  "RefMap_assign st m k v =
     (case m of
        None \<Rightarrow> Panics
      | Some a \<Rightarrow>
          (case load st a of
             Some (ORefMap es) \<Rightarrow> Returns (store st a (ORefMap (AList.update k v es)))
           | _ \<Rightarrow> Panics))"

definition StringMap_assign :: "state \<Rightarrow> ptr \<Rightarrow> string \<Rightarrow> string \<Rightarrow> state outcome" where
  "StringMap_assign st m k v =
     (case m of
        None \<Rightarrow> Panics
      | Some a \<Rightarrow>
          (case load st a of
             Some (OStringMap es) \<Rightarrow> Returns (store st a (OStringMap (AList.update k v es)))
           | _ \<Rightarrow> Panics))"

text \<open>
  The block that \<^verbatim>\<open>Services\<close> (lines 184 to 193) and \<^verbatim>\<open>GetService\<close> (lines 246
  to 255) share: the source service \<open>s\<close> of the registry with cluster identifier
  \<open>cluster\<close> contributes to the canonical copy \<open>sp\<close>. The guards look at the source's
  maps only.
\<close>

definition merge_cluster_maps :: "state \<Rightarrow> ptr \<Rightarrow> ptr \<Rightarrow> string \<Rightarrow> state outcome" where
  "merge_cluster_maps st sp s cluster =
     and_then (deref (load_Service st s)) (\<lambda>sv.
     let clusterExternalAddresses = ClusterExternalAddresses (Attributes sv);
         clusterExternalPorts = ClusterExternalPorts (Attributes sv)
     in
     and_then
       (if clusterExternalAddresses \<noteq> None
        then and_then (RefMap_index st clusterExternalAddresses cluster) (\<lambda>v.
             and_then (deref (load_Service st sp)) (\<lambda>spv.
             RefMap_assign st (ClusterExternalAddresses (Attributes spv)) cluster v))
        else Returns st) (\<lambda>st1.
     and_then
       (if clusterExternalPorts \<noteq> None
        then and_then (RefMap_index st1 clusterExternalPorts cluster) (\<lambda>v.
             and_then (deref (load_Service st1 sp)) (\<lambda>spv.
             RefMap_assign st1 (ClusterExternalPorts (Attributes spv)) cluster v))
        else Returns st1) (\<lambda>st2.
     and_then (deref (load_Service st2 sp)) (\<lambda>spv.
     and_then (deref (load_Service st2 s)) (\<lambda>sv2.
     StringMap_assign st2 (ClusterVIPs spv) cluster (Address sv2))))))"

section \<open>Services\<close>

text \<open>
  The loop of the fast path (at most one cluster-scoped member): the members' lists
  are appended as they are, a failing member adds its error to \<open>errs\<close>.
\<close>

fun Services_concat :: "Instance list \<Rightarrow> ptr list \<Rightarrow> multierror option \<Rightarrow> ptr list \<times> multierror option" where
  "Services_concat [] services errs = (services, errs)"
| "Services_concat (r # rs) services errs =
     (case reg_Services r of
        Inl e \<Rightarrow> Services_concat rs services (multierror_Append errs e)
      | Inr svcs \<Rightarrow> Services_concat rs (services @ svcs) errs)"

text \<open>
  The inner loop of the merge path over the services of one cluster-scoped member.
  \<open>smap\<close> maps a hostname to its canonical copy.
\<close>

fun merge_services ::
  "string \<Rightarrow> ptr list \<Rightarrow> (string \<rightharpoonup> ptr) \<Rightarrow> ptr list \<Rightarrow> state
     \<Rightarrow> (((string \<rightharpoonup> ptr) \<times> ptr list) \<times> state) outcome" where
  "merge_services cluster [] smap services st = Returns ((smap, services), st)"
| "merge_services cluster (s # svcs) smap services st =
     and_then (deref (load_Service st s)) (\<lambda>sv.
     and_then
       (case smap (Hostname sv) of
          Some sp \<Rightarrow> Returns ((sp, smap, services), st)
        | None \<Rightarrow>
            and_then (DeepCopy st s) (\<lambda>(sp, st1).
            Returns ((sp, smap(Hostname sv \<mapsto> sp), services @ [sp]), st1)))
       (\<lambda>((sp, smap1, services1), st1).
     and_then (merge_cluster_maps st1 sp s cluster) (\<lambda>st2.
     merge_services cluster svcs smap1 services1 st2)))"

text \<open>
  The outer loop of the merge path. The package-level \<^verbatim>\<open>clusterAddressesMutex\<close> is
  taken after the member has answered and released at the end of the iteration; a
  caller that finds it taken waits. \<^verbatim>\<open>Services\<close> ranges over the result of
  \<^verbatim>\<open>GetRegistries\<close>, evaluated once; the controller that comes back with it is the
  controller itself and is not used again.
\<close>

fun Services_merge ::
  "Instance list \<Rightarrow> (string \<rightharpoonup> ptr) \<Rightarrow> ptr list \<Rightarrow> multierror option \<Rightarrow> state
     \<Rightarrow> ((ptr list \<times> multierror option) \<times> state) outcome" where
  "Services_merge [] smap services errs st = Returns ((services, errs), st)"
| "Services_merge (r # rs) smap services errs st =
     (case reg_Services r of
        Inl e \<Rightarrow> Services_merge rs smap services (multierror_Append errs e) st
      | Inr svcs \<Rightarrow>
          if clusterAddressesMutex st then Blocks
          else
            (let st1 = st\<lparr>clusterAddressesMutex := True\<rparr> in
             if Cluster r = [] then
               Services_merge rs smap (services @ svcs) errs (st1\<lparr>clusterAddressesMutex := False\<rparr>)
             else
               and_then (merge_services (Cluster r) svcs smap services st1)
                 (\<lambda>((smap1, services1), st2).
                    Services_merge rs smap1 services1 errs (st2\<lparr>clusterAddressesMutex := False\<rparr>))))"

definition Services :: "Controller \<Rightarrow> state \<Rightarrow> ((ptr list \<times> multierror option) \<times> state) outcome" where
  "Services c st =
     (if numK8SRegistries c \<le> 1
      then and_then (GetRegistries c) (\<lambda>(rs, c'). Returns (Services_concat rs [] None, st))
      else and_then (GetRegistries c) (\<lambda>(rs, c'). Services_merge rs Map.empty [] None st))"

section \<open>GetService\<close>

fun GetService_first :: "Instance list \<Rightarrow> string \<Rightarrow> multierror option \<Rightarrow> ptr \<times> multierror option" where
  "GetService_first [] hostname errs = (None, errs)"
| "GetService_first (r # rs) hostname errs =
     (case reg_GetService r hostname of
        Inl e \<Rightarrow> GetService_first rs hostname (multierror_Append errs e)
      | Inr service \<Rightarrow>
          if service = None then GetService_first rs hostname errs
          else (service, None))"

fun GetService_merge ::
  "Instance list \<Rightarrow> string \<Rightarrow> ptr \<Rightarrow> multierror option \<Rightarrow> state
     \<Rightarrow> ((ptr \<times> multierror option) \<times> state) outcome" where
  "GetService_merge [] hostname out errs st = Returns ((out, errs), st)"
| "GetService_merge (r # rs) hostname out errs st =
     (case reg_GetService r hostname of
        Inl e \<Rightarrow> GetService_merge rs hostname out (multierror_Append errs e) st
      | Inr service \<Rightarrow>
          if service = None then GetService_merge rs hostname out errs st
          else if Cluster r = [] then Returns ((service, None), st)
          else if out = None then
            and_then (DeepCopy st service) (\<lambda>(out1, st1).
            GetService_merge rs hostname out1 errs st1)
          else
            and_then (merge_cluster_maps st out service (Cluster r)) (\<lambda>st1.
            GetService_merge rs hostname out errs st1))"

definition GetService :: "Controller \<Rightarrow> string \<Rightarrow> state \<Rightarrow> ((ptr \<times> multierror option) \<times> state) outcome" where
  "GetService c hostname st =
     (if numK8SRegistries c \<le> 1
      then and_then (GetRegistries c) (\<lambda>(rs, c'). Returns (GetService_first rs hostname None, st))
      else and_then (GetRegistries c) (\<lambda>(rs, c'). GetService_merge rs hostname None None st))"

section \<open>The query router\<close>

fun InstancesByPort_loop ::
  "Instance list \<Rightarrow> ptr \<Rightarrow> int \<Rightarrow> labels_Collection \<Rightarrow> ServiceInstance option list
     \<Rightarrow> multierror option \<Rightarrow> ServiceInstance option list \<times> multierror option" where
  "InstancesByPort_loop [] svc port lbls instances errs = (instances, errs)"
| "InstancesByPort_loop (r # rs) svc port lbls instances errs =
     (case reg_InstancesByPort r svc port lbls of
        Inl e \<Rightarrow> InstancesByPort_loop rs svc port lbls instances (multierror_Append errs e)
      | Inr tmpInstances \<Rightarrow>
          if 0 < length tmpInstances
          then InstancesByPort_loop rs svc port lbls (instances @ tmpInstances) errs
          else InstancesByPort_loop rs svc port lbls instances errs)"

definition InstancesByPort ::
  "Controller \<Rightarrow> ptr \<Rightarrow> int \<Rightarrow> labels_Collection
     \<Rightarrow> (ServiceInstance option list \<times> multierror option) outcome" where
  "InstancesByPort c svc port lbls =
     and_then (GetRegistries c) (\<lambda>(rs, c').
     case InstancesByPort_loop rs svc port lbls [] None of
       (instances, errs) \<Rightarrow> Returns (instances, if 0 < length instances then None else errs))"

definition nodeClusterID :: "Proxy \<Rightarrow> string" where
  "nodeClusterID node =
     (case Metadata node of
        None \<Rightarrow> []
      | Some md \<Rightarrow> if Metadata_ClusterID md = [] then [] else Metadata_ClusterID md)"

definition skipSearchingRegistryForProxy :: "string \<Rightarrow> string \<Rightarrow> string \<Rightarrow> bool" where
  "skipSearchingRegistryForProxy nodeClusterId registryClusterID selfClusterID =
     (let registryClusterID =
            (if registryClusterID = serviceregistry_Kubernetes then selfClusterID
             else registryClusterID)
      in if registryClusterID = [] \<or> nodeClusterId = [] then False
         else registryClusterID \<noteq> nodeClusterId)"

text \<open>
  \<^verbatim>\<open>GetProxyServiceInstances\<close>. \<open>selfClusterID\<close> is the configured value of
  \<^verbatim>\<open>features.ClusterName\<close>. The last argument of the loop records the members whose
  \<^verbatim>\<open>GetProxyServiceInstances\<close> has been called, in order; the loop stops at the first
  member that answers with instances, after it has set the proxy's cluster identifier
  from the first of them.
\<close>

fun GetProxyServiceInstances_loop ::
  "Instance list \<Rightarrow> string \<Rightarrow> Proxy \<Rightarrow> multierror option \<Rightarrow> Instance list
     \<Rightarrow> ((ServiceInstance option list \<times> multierror option \<times> Proxy) \<times> Instance list) outcome" where
  "GetProxyServiceInstances_loop [] selfClusterID node errs searched =
     Returns (([], errs, node), searched)"
| "GetProxyServiceInstances_loop (r # rs) selfClusterID node errs searched =
     (if skipSearchingRegistryForProxy (nodeClusterID node) (Cluster r) selfClusterID
      then GetProxyServiceInstances_loop rs selfClusterID node errs searched
      else
        (case reg_GetProxyServiceInstances r node of
           Inl e \<Rightarrow>
             GetProxyServiceInstances_loop rs selfClusterID node (multierror_Append errs e)
               (searched @ [r])
         | Inr instances \<Rightarrow>
             (case instances of
                [] \<Rightarrow> GetProxyServiceInstances_loop rs selfClusterID node errs (searched @ [r])
              | i0 # _ \<Rightarrow>
                  and_then (deref i0) (\<lambda>inst.
                  and_then (deref (Endpoint inst)) (\<lambda>ep.
                  Returns ((instances, errs, node\<lparr>ClusterID := Locality_ClusterID ep\<rparr>),
                           searched @ [r]))))))"

definition GetProxyServiceInstances ::
  "Controller \<Rightarrow> string \<Rightarrow> Proxy
     \<Rightarrow> ((ServiceInstance option list \<times> multierror option \<times> Proxy) \<times> Instance list) outcome" where
  "GetProxyServiceInstances c selfClusterID node =
     and_then (GetRegistries c) (\<lambda>(rs, c').
     and_then (GetProxyServiceInstances_loop rs selfClusterID node None []) (\<lambda>((out, errs, node'), searched).
     Returns ((out, if 0 < length out then None else errs, node'), searched)))"

section \<open>Handler registration\<close>

text \<open>
  The result is the sequence of members whose registration has been called, in order,
  and the error returned to the caller.
\<close>

fun AppendServiceHandler_loop :: "Instance list \<Rightarrow> handler \<Rightarrow> Instance list \<Rightarrow> Instance list \<times> err option" where
  "AppendServiceHandler_loop [] f called = (called, None)"
| "AppendServiceHandler_loop (r # rs) f called =
     (case reg_AppendServiceHandler r f of
        Some e \<Rightarrow> (called @ [r], Some e)
      | None \<Rightarrow> AppendServiceHandler_loop rs f (called @ [r]))"

definition AppendServiceHandler :: "Controller \<Rightarrow> handler \<Rightarrow> (Instance list \<times> err option) outcome" where
  "AppendServiceHandler c f =
     and_then (GetRegistries c) (\<lambda>(rs, c'). Returns (AppendServiceHandler_loop rs f []))"

fun AppendInstanceHandler_loop :: "Instance list \<Rightarrow> handler \<Rightarrow> Instance list \<Rightarrow> Instance list \<times> err option" where
  "AppendInstanceHandler_loop [] f called = (called, None)"
| "AppendInstanceHandler_loop (r # rs) f called =
     (case reg_AppendInstanceHandler r f of
        Some e \<Rightarrow> (called @ [r], Some e)
      | None \<Rightarrow> AppendInstanceHandler_loop rs f (called @ [r]))"

definition AppendInstanceHandler :: "Controller \<Rightarrow> handler \<Rightarrow> (Instance list \<times> err option) outcome" where
  "AppendInstanceHandler c f =
     and_then (GetRegistries c) (\<lambda>(rs, c'). Returns (AppendInstanceHandler_loop rs f []))"

section \<open>What the members answer\<close>

text \<open>
  The values the members return to one fan-out, in member order, and the errors they
  return, in member order. \<open>call\<close> is the operation with its arguments.
\<close>

definition member_answers :: "Instance list \<Rightarrow> (Instance \<Rightarrow> err + 'a list) \<Rightarrow> 'a list" where
  "member_answers rs call = concat (map (\<lambda>r. case call r of Inl e \<Rightarrow> [] | Inr xs \<Rightarrow> xs) rs)"

definition member_errors :: "Instance list \<Rightarrow> (Instance \<Rightarrow> err + 'a) \<Rightarrow> err list" where
  "member_errors rs call = concat (map (\<lambda>r. case call r of Inl e \<Rightarrow> [e] | Inr x \<Rightarrow> []) rs)"

definition aggregated :: "multierror option \<Rightarrow> err list \<Rightarrow> multierror option" where
  "aggregated errs es =
     (if es = [] then errs else Some ((case errs of None \<Rightarrow> [] | Some xs \<Rightarrow> xs) @ es))"

section \<open>Example members\<close>

text \<open>
  A member that knows no service and accepts every handler, and a controller state
  with a free lock; the examples below override the answers they need.
\<close>

definition mock_registry :: "string \<Rightarrow> Instance" where
  "mock_registry cluster =
     \<lparr>Cluster = cluster, Provider = ''Mock'',
      reg_Services = Inr [],
      reg_GetService = (\<lambda>hostname. Inr None),
      reg_InstancesByPort = (\<lambda>svc port lbls. Inr []),
      reg_GetProxyServiceInstances = (\<lambda>node. Inr []),
      reg_AppendServiceHandler = (\<lambda>f. None),
      reg_AppendInstanceHandler = (\<lambda>f. None)\<rparr>"

definition failing_handlers :: "string \<Rightarrow> err \<Rightarrow> Instance" where
  "failing_handlers cluster e =
     (mock_registry cluster)\<lparr>reg_AppendServiceHandler := (\<lambda>f. Some e),
                              reg_AppendInstanceHandler := (\<lambda>f. Some e)\<rparr>"

definition controller_of :: "int \<Rightarrow> Instance list \<Rightarrow> Controller" where
  "controller_of n rs = \<lparr>numK8SRegistries = n, registries = rs, storeLock = unlocked\<rparr>"

section \<open>Reading the store\<close>

text \<open>
  What a pointer leads to: the contents of a \<^verbatim>\<open>map[string]string\<close>, the entries of a map
  with reference values (each key with the slice or inner map it is bound to, by
  address), the record of a service with the contents of its three maps, and the inner
  port map a service holds for one cluster.
\<close>

definition string_map :: "state \<Rightarrow> ptr \<Rightarrow> (string \<times> string) list option" where
  "string_map st p =
     (case p of
        None \<Rightarrow> None
      | Some a \<Rightarrow> (case load st a of Some (OStringMap m) \<Rightarrow> Some m | _ \<Rightarrow> None))"

definition ref_map :: "state \<Rightarrow> ptr \<Rightarrow> (string \<times> ptr) list option" where
  "ref_map st p =
     (case p of
        None \<Rightarrow> None
      | Some a \<Rightarrow> (case load st a of Some (ORefMap es) \<Rightarrow> Some es | _ \<Rightarrow> None))"



section \<open>Frames\<close>

text \<open>
  \<open>map_writes A st st'\<close>: the store \<open>st'\<close> differs from \<open>st\<close> in the contents of maps at
  the addresses in \<open>A\<close> at most; every object keeps its kind and every other object its
  value. \<open>private_copy n st p\<close>: the record at \<open>p\<close> and each of its non-nil maps live at
  addresses from \<open>n\<close> on, that is, they were allocated after the store had \<open>n\<close> objects.
  \<open>passes_through c p\<close>: \<open>p\<close> is a pointer that a member without cluster identifier
  returns from \<^verbatim>\<open>Services\<close>.
\<close>

definition same_kind :: "obj \<Rightarrow> obj \<Rightarrow> bool" where
  "same_kind ob ob' =
     (case ob of
        ORefMap es \<Rightarrow> (case ob' of ORefMap es' \<Rightarrow> True | _ \<Rightarrow> False)
      | OStringMap m \<Rightarrow> (case ob' of OStringMap m' \<Rightarrow> True | _ \<Rightarrow> False)
      | _ \<Rightarrow> ob' = ob)"

definition map_writes :: "addr set \<Rightarrow> state \<Rightarrow> state \<Rightarrow> bool" where
  "map_writes A st st' \<longleftrightarrow>
     length (heap st') = length (heap st)
     \<and> clusterAddressesMutex st' = clusterAddressesMutex st
     \<and> (\<forall>a < length (heap st).
           same_kind (heap st ! a) (heap st' ! a) \<and> (a \<notin> A \<longrightarrow> heap st' ! a = heap st ! a))"

definition fresh_or_nil :: "nat \<Rightarrow> ptr \<Rightarrow> bool" where
  "fresh_or_nil n p = (case p of None \<Rightarrow> True | Some a \<Rightarrow> n \<le> a)"

definition private_copy :: "nat \<Rightarrow> state \<Rightarrow> ptr \<Rightarrow> bool" where
  "private_copy n st p =
     (case p of
        None \<Rightarrow> False
      | Some a \<Rightarrow>
          n \<le> a
          \<and> (case load_Service st p of
                None \<Rightarrow> False
              | Some sv \<Rightarrow>
                  fresh_or_nil n (ClusterVIPs sv)
                  \<and> fresh_or_nil n (ClusterExternalAddresses (Attributes sv))
                  \<and> fresh_or_nil n (ClusterExternalPorts (Attributes sv))))"



section \<open>Well-typed services\<close>






definition contributes :: "state \<Rightarrow> Service \<Rightarrow> string \<Rightarrow> (Instance \<Rightarrow> string) \<Rightarrow> Instance \<Rightarrow> bool" where
  "contributes st spv hn addr_of r \<longleftrightarrow>
     Cluster r \<noteq> []
     \<and> (\<exists>s sv. reg_Services r = Inr [s] \<and> load_Service st s = Some sv
           \<and> Hostname sv = hn \<and> Address sv = addr_of r
           \<and> (ClusterExternalAddresses (Attributes sv) \<noteq> None \<longrightarrow>
                 ref_map st (ClusterExternalAddresses (Attributes sv)) \<noteq> None
                 \<and> ref_map st (ClusterExternalAddresses (Attributes spv)) \<noteq> None)
           \<and> (ClusterExternalPorts (Attributes sv) \<noteq> None \<longrightarrow>
                 ref_map st (ClusterExternalPorts (Attributes sv)) \<noteq> None
                 \<and> ref_map st (ClusterExternalPorts (Attributes spv)) \<noteq> None))"

section \<open>Example services\<close>

text \<open>
  Two cluster-scoped members \<open>c1\<close> and \<open>c2\<close>, each reporting one service of hostname
  \<open>h\<close>, at the addresses 1 and 3 of the store, and the stores the examples run on: one
  with empty ClusterVIPs, one where the first service already has a ClusterVIPs entry
  for a third cluster, two where the first service has a nil external map and the second
  a non-nil one, and one where the first service has an external port for its cluster.
\<close>

definition service_obj :: "string \<Rightarrow> string \<Rightarrow> ptr \<Rightarrow> ptr \<Rightarrow> ptr \<Rightarrow> obj" where
  "service_obj hostname address vips addrs ports =
     OService \<lparr>Attributes = \<lparr>ClusterExternalAddresses = addrs, ClusterExternalPorts = ports\<rparr>,
               Hostname = hostname, Address = address, ClusterVIPs = vips\<rparr>"

definition cluster_registry :: "string \<Rightarrow> addr \<Rightarrow> Instance" where
  "cluster_registry cluster a =
     (mock_registry cluster)\<lparr>reg_Services := Inr [Some a],
                              reg_GetService := (\<lambda>hostname. Inr (Some a))\<rparr>"

definition failing_registry :: "string \<Rightarrow> err \<Rightarrow> Instance" where
  "failing_registry cluster e =
     (mock_registry cluster)\<lparr>reg_Services := Inl e, reg_GetService := (\<lambda>hostname. Inl e)\<rparr>"

definition two_clusters :: Controller where
  "two_clusters = controller_of 2 [cluster_registry ''c1'' 1, cluster_registry ''c2'' 3]"

definition store_of :: "obj list \<Rightarrow> state" where
  "store_of objs = \<lparr>heap = objs, clusterAddressesMutex = False\<rparr>"

definition plain_objs :: "obj list" where
  "plain_objs =
     [OStringMap [], service_obj ''h'' ''10.0.0.1'' (Some 0) None None,
      OStringMap [], service_obj ''h'' ''10.0.0.2'' (Some 2) None None]"

definition foreign_vip_objs :: "obj list" where
  "foreign_vip_objs =
     [OStringMap [(''c0'', ''9.9.9.9'')], service_obj ''h'' ''10.0.0.1'' (Some 0) None None,
      OStringMap [], service_obj ''h'' ''10.0.0.2'' (Some 2) None None]"

definition nil_addresses_objs :: "obj list" where
  "nil_addresses_objs =
     [OStringMap [], service_obj ''h'' ''10.0.0.1'' (Some 0) None None,
      OStringMap [], service_obj ''h'' ''10.0.0.2'' (Some 2) (Some 5) None,
      OStrings [''34.1.2.3''], ORefMap [(''c2'', Some 4)]]"

definition nil_ports_objs :: "obj list" where
  "nil_ports_objs =
     [OStringMap [], service_obj ''h'' ''10.0.0.1'' (Some 0) None None,
      OStringMap [], service_obj ''h'' ''10.0.0.2'' (Some 2) None (Some 5),
      OPorts [(80, 30080)], ORefMap [(''c2'', Some 4)]]"

definition shared_ports_objs :: "obj list" where
  "shared_ports_objs =
     [OStringMap [], service_obj ''h'' ''10.0.0.1'' (Some 0) None (Some 5),
      OStringMap [], service_obj ''h'' ''10.0.0.2'' (Some 2) None None,
      OPorts [(80, 30080)], ORefMap [(''c1'', Some 4)]]"

definition shared_ports_after :: "obj list" where
  "shared_ports_after =
     shared_ports_objs
     @ [OPorts [(80, 30080)], ORefMap [(''c1'', Some 4)],
        OStringMap [(''c1'', ''10.0.0.1''), (''c2'', ''10.0.0.2'')],
        service_obj ''h'' ''10.0.0.1'' (Some 8) None (Some 7)]"

definition east_proxy :: Proxy where
  "east_proxy = \<lparr>ID = ''sidecar~10.1.1.1'', Metadata = Some \<lparr>Metadata_ClusterID = ''east''\<rparr>, ClusterID = []\<rparr>"

section \<open>Properties of the registry set\<close>

lemma GetRegistries_idle:
  "\<not> writer (storeLock c) \<Longrightarrow> GetRegistries c = Returns (registries c, c)"
  by (simp add: GetRegistries_def RWMutex_RLock_def RWMutex_RUnlock_def)

lemma GetRegistries_writer:
  "writer (storeLock c) \<Longrightarrow> GetRegistries c = Blocks"
  by (simp add: GetRegistries_def RWMutex_RLock_def)

lemma GetRegistries_Returns:
  "GetRegistries c = Returns (rs, c') \<Longrightarrow> rs = registries c \<and> \<not> writer (storeLock c)"
  by (auto simp add: GetRegistries_def RWMutex_RLock_def split: option.splits if_splits)

text \<open>The counting pass counts the members with a non-empty cluster identifier.\<close>

lemma count_clusters_eq:
  "count_clusters rs n = n + int (length (filter (\<lambda>r. Cluster r \<noteq> []) rs))"
  by (induction rs arbitrary: n) simp_all

text \<open>
  C8. The claim is that after every completed \<^verbatim>\<open>AddRegistry\<close> and
  \<^verbatim>\<open>DeleteRegistry\<close> the cached count equals the number of members with a cluster
  identifier. The code recounts through \<^verbatim>\<open>GetRegistries\<close>, which asks for the read
  lock while \<^verbatim>\<open>AddRegistry\<close> still holds the write lock of the same
  \<^verbatim>\<open>sync.RWMutex\<close>: the call waits for itself, whatever the controller and the
  registry are, so no \<^verbatim>\<open>AddRegistry\<close> completes and the count, which the pass
  would compute as claimed, is never written.
\<close>

theorem AddRegistry_never_completes: "AddRegistry c registry = Blocks"
  by (simp add: AddRegistry_def RWMutex_Lock_def GetRegistries_writer Let_def)

lemma GetRegistryIndex_loop_unknown:
  "clusterID \<notin> Cluster ` set rs \<Longrightarrow> GetRegistryIndex_loop rs clusterID i = (0, False)"
  by (induction rs arbitrary: i) auto

lemma GetRegistryIndex_loop_known:
  "clusterID \<in> Cluster ` set rs \<Longrightarrow> \<exists>j. GetRegistryIndex_loop rs clusterID i = (j, True)"
  by (induction rs arbitrary: i) auto

text \<open>
  \<^verbatim>\<open>DeleteRegistry\<close> of a cluster identifier that no member has, the empty set
  included, returns and leaves the controller as it is: member sequence, cached count
  and lock.
\<close>

theorem DeleteRegistry_unknown_returns_unchanged:
  assumes "storeLock c = unlocked" and "clusterID \<notin> Cluster ` set (registries c)"
  shows "DeleteRegistry c clusterID = Returns c"
proof -
  from assms(1) have l: "RWMutex_Lock (storeLock c) = Some \<lparr>writer = True, readers = 0\<rparr>"
    by (simp add: RWMutex_Lock_def unlocked_def)
  have u: "c\<lparr>storeLock := RWMutex_Unlock \<lparr>writer = True, readers = 0\<rparr>\<rparr> = c"
    using assms(1) by (simp add: RWMutex_Unlock_def unlocked_def)
  from assms(2) have "GetRegistryIndex (c\<lparr>storeLock := \<lparr>writer = True, readers = 0\<rparr>\<rparr>) clusterID = (0, False)"
    by (simp add: GetRegistryIndex_def GetRegistryIndex_loop_unknown)
  with l u show ?thesis
    by (simp add: DeleteRegistry_def Let_def)
qed

theorem DeleteRegistry_unknown_example:
  "storeLock NewController = unlocked \<and> DeleteRegistry NewController ''c1'' = Returns NewController
   \<and> DeleteRegistry (controller_of 1 [mock_registry ''c1'']) ''c2''
       = Returns (controller_of 1 [mock_registry ''c1''])"
  using DeleteRegistry_unknown_returns_unchanged [of NewController "''c1''"]
    DeleteRegistry_unknown_returns_unchanged [of "controller_of 1 [mock_registry ''c1'']" "''c2''"]
  by (simp add: NewController_def controller_of_def mock_registry_def)

text \<open>
  \<^verbatim>\<open>DeleteRegistry\<close> of a cluster identifier that a member has never completes: it
  asks for the read lock through \<^verbatim>\<open>GetRegistries\<close> while it holds the write lock, as
  \<^verbatim>\<open>AddRegistry\<close> does.
\<close>

theorem DeleteRegistry_known_never_completes:
  assumes "clusterID \<in> Cluster ` set (registries c)"
  shows "DeleteRegistry c clusterID = Blocks"
proof (cases "RWMutex_Lock (storeLock c)")
  case None
  then show ?thesis by (simp add: DeleteRegistry_def)
next
  case (Some l)
  then have w: "writer l" by (auto simp add: RWMutex_Lock_def split: if_splits)
  from assms have ne: "length (registries c) \<noteq> 0" by auto
  from GetRegistryIndex_loop_known [OF assms] obtain j where
    "GetRegistryIndex (c\<lparr>storeLock := l\<rparr>) clusterID = (j, True)"
    by (auto simp add: GetRegistryIndex_def)
  with Some w ne show ?thesis
    by (simp add: DeleteRegistry_def Let_def GetRegistries_def RWMutex_RLock_def)
qed

theorem DeleteRegistry_known_example:
  "''c1'' \<in> Cluster ` set (registries (controller_of 1 [mock_registry ''c1'']))
   \<and> DeleteRegistry (controller_of 1 [mock_registry ''c1'']) ''c1'' = Blocks"
  using DeleteRegistry_known_never_completes [of "''c1''" "controller_of 1 [mock_registry ''c1'']"]
  by (simp add: controller_of_def mock_registry_def)

section \<open>Properties of the fan-out loops\<close>

lemma aggregated_Nil [simp]: "aggregated errs [] = errs"
  by (simp add: aggregated_def)

lemma aggregated_Cons [simp]: "aggregated errs (e # es) = aggregated (multierror_Append errs e) es"
  by (simp add: aggregated_def multierror_Append_def split: option.splits)

lemma member_answers_simps [simp]:
  "member_answers [] call = []"
  "member_answers (r # rs) call = (case call r of Inl e \<Rightarrow> [] | Inr xs \<Rightarrow> xs) @ member_answers rs call"
  by (simp_all add: member_answers_def)

lemma member_errors_simps [simp]:
  "member_errors [] call = []"
  "member_errors (r # rs) call = (case call r of Inl e \<Rightarrow> [e] | Inr xs \<Rightarrow> []) @ member_errors rs call"
  by (simp_all add: member_errors_def)

lemma InstancesByPort_loop_eq:
  "InstancesByPort_loop rs svc port lbls instances errs =
     (instances @ member_answers rs (\<lambda>r. reg_InstancesByPort r svc port lbls),
      aggregated errs (member_errors rs (\<lambda>r. reg_InstancesByPort r svc port lbls)))"
  by (induction rs arbitrary: instances errs) (auto split: sum.splits)

lemma Services_concat_eq:
  "Services_concat rs services errs =
     (services @ member_answers rs reg_Services, aggregated errs (member_errors rs reg_Services))"
  by (induction rs arbitrary: services errs) (auto split: sum.splits)

text \<open>
  C4. On a controller whose lock is free, \<^verbatim>\<open>InstancesByPort\<close> returns the
  concatenation of the instances of the members that answered, in member order, and
  the aggregated error only when that concatenation is empty, in which case the error
  is nil exactly when no member failed. With one failing member and one member that
  answers with a non-empty list, in either order, the result is that list and a nil
  error.
\<close>

theorem InstancesByPort_success_masks_errors:
  assumes idle: "\<not> writer (storeLock c)"
  shows "InstancesByPort c svc port lbls =
           Returns (member_answers (registries c) (\<lambda>r. reg_InstancesByPort r svc port lbls),
                    if member_answers (registries c) (\<lambda>r. reg_InstancesByPort r svc port lbls) = []
                    then (if member_errors (registries c) (\<lambda>r. reg_InstancesByPort r svc port lbls) = []
                          then None
                          else Some (member_errors (registries c)
                                       (\<lambda>r. reg_InstancesByPort r svc port lbls)))
                    else None)
         \<and> ((registries c = [r1, r2] \<or> registries c = [r2, r1])
              \<and> reg_InstancesByPort r1 svc port lbls = Inl e
              \<and> reg_InstancesByPort r2 svc port lbls = Inr xs \<and> xs \<noteq> []
              \<longrightarrow> InstancesByPort c svc port lbls = Returns (xs, None))"
proof -
  have gen: "InstancesByPort c svc port lbls =
           Returns (member_answers (registries c) (\<lambda>r. reg_InstancesByPort r svc port lbls),
                    if member_answers (registries c) (\<lambda>r. reg_InstancesByPort r svc port lbls) = []
                    then (if member_errors (registries c) (\<lambda>r. reg_InstancesByPort r svc port lbls) = []
                          then None
                          else Some (member_errors (registries c)
                                       (\<lambda>r. reg_InstancesByPort r svc port lbls)))
                    else None)"
    using idle
    by (simp add: InstancesByPort_def GetRegistries_idle InstancesByPort_loop_eq aggregated_def)
  show ?thesis
    by (rule conjI, rule gen) (auto simp add: gen)
qed

theorem InstancesByPort_one_failing_one_succeeding:
  "\<not> writer (storeLock
       (controller_of 0
          [(mock_registry [])\<lparr>reg_InstancesByPort := (\<lambda>svc port lbls. Inl ''down'')\<rparr>,
           (mock_registry ''c1'')\<lparr>reg_InstancesByPort :=
              (\<lambda>svc port lbls. Inr [Some \<lparr>Endpoint = None\<rparr>])\<rparr>]))
   \<and> InstancesByPort
       (controller_of 0
          [(mock_registry [])\<lparr>reg_InstancesByPort := (\<lambda>svc port lbls. Inl ''down'')\<rparr>,
           (mock_registry ''c1'')\<lparr>reg_InstancesByPort :=
              (\<lambda>svc port lbls. Inr [Some \<lparr>Endpoint = None\<rparr>])\<rparr>])
       None 80 [] = Returns ([Some \<lparr>Endpoint = None\<rparr>], None)"
  using InstancesByPort_success_masks_errors
     [of "controller_of 0
        [(mock_registry [])\<lparr>reg_InstancesByPort := (\<lambda>svc port lbls. Inl ''down'')\<rparr>,
         (mock_registry ''c1'')\<lparr>reg_InstancesByPort :=
            (\<lambda>svc port lbls. Inr [Some \<lparr>Endpoint = None\<rparr>])\<rparr>]"
         None 80 "[]"
         "(mock_registry [])\<lparr>reg_InstancesByPort := (\<lambda>svc port lbls. Inl ''down'')\<rparr>"
         "(mock_registry ''c1'')\<lparr>reg_InstancesByPort :=
            (\<lambda>svc port lbls. Inr [Some \<lparr>Endpoint = None\<rparr>])\<rparr>"
         "''down''" "[Some \<lparr>Endpoint = None\<rparr>]"]
  by (simp add: controller_of_def unlocked_def)

text \<open>
  C9. The fast path: with a cached count of at most one, a free lock and no failing
  member, \<^verbatim>\<open>Services\<close> returns the members' lists appended in member order with a
  nil error, duplicates of a hostname included, and writes nothing to any service.
\<close>

theorem Services_fast_path:
  assumes "numK8SRegistries c \<le> 1" and "\<not> writer (storeLock c)"
    and "\<forall>r \<in> set (registries c). \<exists>svcs. reg_Services r = Inr svcs"
  shows "Services c st =
           Returns ((concat (map (\<lambda>r. projr (reg_Services r)) (registries c)), None), st)"
proof -
  have "member_answers rs reg_Services = concat (map (\<lambda>r. projr (reg_Services r)) rs)
        \<and> member_errors rs reg_Services = []"
    if "\<forall>r \<in> set rs. \<exists>svcs. reg_Services r = Inr svcs" for rs
    using that by (induction rs) auto
  with assms show ?thesis
    by (simp add: Services_def GetRegistries_idle Services_concat_eq)
qed

theorem Services_fast_path_keeps_duplicates:
  "numK8SRegistries
     (controller_of 1 [(mock_registry [])\<lparr>reg_Services := Inr [Some 0]\<rparr>,
                       (mock_registry ''c1'')\<lparr>reg_Services := Inr [Some 1, Some 0]\<rparr>]) \<le> 1
   \<and> Services
       (controller_of 1 [(mock_registry [])\<lparr>reg_Services := Inr [Some 0]\<rparr>,
                         (mock_registry ''c1'')\<lparr>reg_Services := Inr [Some 1, Some 0]\<rparr>])
       \<lparr>heap = [], clusterAddressesMutex = False\<rparr>
     = Returns (([Some 0, Some 1, Some 0], None), \<lparr>heap = [], clusterAddressesMutex = False\<rparr>)"
  using Services_fast_path
     [of "controller_of 1 [(mock_registry [])\<lparr>reg_Services := Inr [Some 0]\<rparr>,
                           (mock_registry ''c1'')\<lparr>reg_Services := Inr [Some 1, Some 0]\<rparr>]"
         "\<lparr>heap = [], clusterAddressesMutex = False\<rparr>"]
  by (simp add: controller_of_def unlocked_def)

section \<open>Properties of handler registration\<close>

lemma AppendServiceHandler_loop_all_ok:
  "\<forall>r \<in> set rs. reg_AppendServiceHandler r f = None \<Longrightarrow>
     AppendServiceHandler_loop rs f called = (called @ rs, None)"
  by (induction rs arbitrary: called) auto

lemma AppendServiceHandler_loop_first_failure:
  "\<forall>r \<in> set pre. reg_AppendServiceHandler r f = None \<Longrightarrow>
   reg_AppendServiceHandler r f = Some e \<Longrightarrow>
     AppendServiceHandler_loop (pre @ r # post) f called = (called @ pre @ [r], Some e)"
  by (induction pre arbitrary: called) auto

lemma AppendInstanceHandler_loop_all_ok:
  "\<forall>r \<in> set rs. reg_AppendInstanceHandler r f = None \<Longrightarrow>
     AppendInstanceHandler_loop rs f called = (called @ rs, None)"
  by (induction rs arbitrary: called) auto

lemma AppendInstanceHandler_loop_first_failure:
  "\<forall>r \<in> set pre. reg_AppendInstanceHandler r f = None \<Longrightarrow>
   reg_AppendInstanceHandler r f = Some e \<Longrightarrow>
     AppendInstanceHandler_loop (pre @ r # post) f called = (called @ pre @ [r], Some e)"
  by (induction pre arbitrary: called) auto

text \<open>
  C7. Handler registration fails fast. When the members before \<open>r\<close> accept the handler
  and \<open>r\<close> refuses it with \<open>e\<close>, the registration has been called on those members and
  on \<open>r\<close>, on no member after \<open>r\<close>, and the call returns \<open>e\<close> as it is; when every member
  accepts, every member has been called and the call returns nil. The same holds for
  \<^verbatim>\<open>AppendInstanceHandler\<close>.
\<close>

theorem handler_registration_fails_fast:
  assumes idle: "\<not> writer (storeLock c)"
  shows "(registries c = pre @ r # post
            \<and> (\<forall>p \<in> set pre. reg_AppendServiceHandler p f = None)
            \<and> reg_AppendServiceHandler r f = Some e
          \<longrightarrow> AppendServiceHandler c f = Returns (pre @ [r], Some e))
       \<and> ((\<forall>p \<in> set (registries c). reg_AppendServiceHandler p f = None)
          \<longrightarrow> AppendServiceHandler c f = Returns (registries c, None))
       \<and> (registries c = pre @ r # post
            \<and> (\<forall>p \<in> set pre. reg_AppendInstanceHandler p f = None)
            \<and> reg_AppendInstanceHandler r f = Some e
          \<longrightarrow> AppendInstanceHandler c f = Returns (pre @ [r], Some e))
       \<and> ((\<forall>p \<in> set (registries c). reg_AppendInstanceHandler p f = None)
          \<longrightarrow> AppendInstanceHandler c f = Returns (registries c, None))"
  using idle
  by (simp add: AppendServiceHandler_def AppendInstanceHandler_def GetRegistries_idle
        AppendServiceHandler_loop_all_ok AppendServiceHandler_loop_first_failure
        AppendInstanceHandler_loop_all_ok AppendInstanceHandler_loop_first_failure)

theorem handler_registration_second_of_three_fails:
  "AppendServiceHandler
     (controller_of 3 [mock_registry ''c1'', failing_handlers ''c2'' ''refused'', mock_registry ''c3''])
     ''onService''
     = Returns ([mock_registry ''c1'', failing_handlers ''c2'' ''refused''], Some ''refused'')
   \<and> AppendInstanceHandler
     (controller_of 3 [mock_registry ''c1'', failing_handlers ''c2'' ''refused'', mock_registry ''c3''])
     ''onInstance''
     = Returns ([mock_registry ''c1'', failing_handlers ''c2'' ''refused''], Some ''refused'')
   \<and> AppendServiceHandler
     (controller_of 3 [mock_registry ''c1'', mock_registry ''c2'', mock_registry ''c3''])
     ''onService''
     = Returns ([mock_registry ''c1'', mock_registry ''c2'', mock_registry ''c3''], None)
   \<and> AppendInstanceHandler
     (controller_of 3 [mock_registry ''c1'', mock_registry ''c2'', mock_registry ''c3''])
     ''onInstance''
     = Returns ([mock_registry ''c1'', mock_registry ''c2'', mock_registry ''c3''], None)"
  using
    handler_registration_fails_fast
      [of "controller_of 3 [mock_registry ''c1'', failing_handlers ''c2'' ''refused'', mock_registry ''c3'']"
          "[mock_registry ''c1'']" "failing_handlers ''c2'' ''refused''" "[mock_registry ''c3'']"
          "''onService''" "''refused''"]
    handler_registration_fails_fast
      [of "controller_of 3 [mock_registry ''c1'', failing_handlers ''c2'' ''refused'', mock_registry ''c3'']"
          "[mock_registry ''c1'']" "failing_handlers ''c2'' ''refused''" "[mock_registry ''c3'']"
          "''onInstance''" "''refused''"]
    handler_registration_fails_fast
      [of "controller_of 3 [mock_registry ''c1'', mock_registry ''c2'', mock_registry ''c3'']"
          "[]" "mock_registry ''c1''" "[]" "''onService''" "''x''"]
    handler_registration_fails_fast
      [of "controller_of 3 [mock_registry ''c1'', mock_registry ''c2'', mock_registry ''c3'']"
          "[]" "mock_registry ''c1''" "[]" "''onInstance''" "''x''"]
  by (simp add: controller_of_def unlocked_def mock_registry_def failing_handlers_def)

section \<open>Properties of the store\<close>

lemmas example_defs =
  two_clusters_def cluster_registry_def failing_registry_def mock_registry_def controller_of_def
  unlocked_def store_of_def service_obj_def plain_objs_def foreign_vip_objs_def
  nil_addresses_objs_def nil_ports_objs_def shared_ports_objs_def shared_ports_after_def

lemmas model_defs =
  Services_def GetService_def GetRegistries_def RWMutex_RLock_def RWMutex_RUnlock_def
  DeepCopy_def load_Service_def load_def alloc_def store_def copy_RefMap_def copy_StringMap_def
  copy_leaf_def merge_cluster_maps_def StringMap_assign_def RefMap_assign_def RefMap_index_def
  multierror_Append_def

lemma and_then_Returns:
  "and_then m f = Returns y \<longleftrightarrow> (\<exists>x. m = Returns x \<and> f x = Returns y)"
  by (cases m) auto


lemma alloc_facts:
  "alloc st ob = (a, st') \<Longrightarrow>
     a = length (heap st) \<and> heap st' = heap st @ [ob]
     \<and> clusterAddressesMutex st' = clusterAddressesMutex st"
  by (auto simp add: alloc_def)


lemma load_less: "load st a = Some ob \<Longrightarrow> a < length (heap st)"
  by (simp add: load_def split: if_splits)

lemma load_alloc_new: "alloc st ob = (a, st') \<Longrightarrow> load st' a = Some ob"
  by (auto simp add: alloc_def load_def)


lemma load_mutex [simp]: "load (st\<lparr>clusterAddressesMutex := b\<rparr>) a = load st a"
  by (simp add: load_def)

lemma load_Service_mutex [simp]: "load_Service (st\<lparr>clusterAddressesMutex := b\<rparr>) p = load_Service st p"
  by (cases p) (simp_all add: load_Service_def)

lemma string_map_mutex [simp]: "string_map (st\<lparr>clusterAddressesMutex := b\<rparr>) p = string_map st p"
  by (cases p) (simp_all add: string_map_def)

lemma ref_map_mutex [simp]: "ref_map (st\<lparr>clusterAddressesMutex := b\<rparr>) p = ref_map st p"
  by (cases p) (simp_all add: ref_map_def)





subsection \<open>Writes to maps\<close>

lemma same_kind_refl [simp]: "same_kind ob ob"
  by (cases ob) (simp_all add: same_kind_def)


lemma same_kind_RefMap [simp]: "same_kind (ORefMap es) (ORefMap es')"
  by (simp add: same_kind_def)

lemma same_kind_StringMap [simp]: "same_kind (OStringMap m) (OStringMap m')"
  by (simp add: same_kind_def)


lemma map_writes_refl [simp]: "map_writes A st st"
  by (simp add: map_writes_def)













subsection \<open>Deep copies\<close>



















subsection \<open>The shared merge block\<close>






subsection \<open>Private copies\<close>

lemma private_copy_iff:
  "private_copy n st p \<longleftrightarrow>
     (\<exists>a sv. p = Some a \<and> n \<le> a \<and> load_Service st p = Some sv
        \<and> fresh_or_nil n (ClusterVIPs sv)
        \<and> fresh_or_nil n (ClusterExternalAddresses (Attributes sv))
        \<and> fresh_or_nil n (ClusterExternalPorts (Attributes sv)))"
  by (cases p; cases "load_Service st p") (simp_all add: private_copy_def)






lemma private_copy_mutex [simp]:
  "private_copy n (st\<lparr>clusterAddressesMutex := b\<rparr>) p = private_copy n st p"
  by (simp add: private_copy_iff)







section \<open>The merge of ClusterVIPs in Services\<close>


lemma contributes_mutex [simp]:
  "contributes (st\<lparr>clusterAddressesMutex := b\<rparr>) spv hn addr_of r = contributes st spv hn addr_of r"
  by (simp add: contributes_def)









section \<open>The merge of ClusterVIPs in GetService\<close>

text \<open>
  C2. The claim is that \<^verbatim>\<open>GetService\<close> sets, for every cluster-scoped member that
  reports the service, the first one included, the ClusterVIPs entry of the member's
  cluster. On the two example members \<^verbatim>\<open>GetService\<close> returns a copy whose ClusterVIPs
  has the entry of \<open>c2\<close> only: the first member's service is deep-copied and the shared
  block runs in the \<^verbatim>\<open>else\<close> branch, for the later members. \<^verbatim>\<open>Services\<close> runs the
  block for every sighting and returns both entries on the same input.
\<close>

theorem GetService_omits_first_cluster_vip:
  "GetService two_clusters ''h'' (store_of plain_objs)
     = Returns ((Some 5, None),
         store_of (plain_objs @ [OStringMap [(''c2'', ''10.0.0.2'')],
                                 service_obj ''h'' ''10.0.0.1'' (Some 4) None None]))
   \<and> Services two_clusters (store_of plain_objs)
     = Returns (([Some 5], None),
         store_of (plain_objs @ [OStringMap [(''c1'', ''10.0.0.1''), (''c2'', ''10.0.0.2'')],
                                 service_obj ''h'' ''10.0.0.1'' (Some 4) None None]))"
  by (simp add: example_defs model_defs)

section \<open>Errors returned with results\<close>







section \<open>Isolation of the merged records\<close>




section \<open>The cluster-affinity filter\<close>

lemma GetProxyServiceInstances_loop_searched:
  "GetProxyServiceInstances_loop rs self node errs searched = Returns (res, searched') \<Longrightarrow>
     \<exists>n. searched' = searched @ take n (filter (\<lambda>r. \<not> skipSearchingRegistryForProxy (nodeClusterID node) (Cluster r) self) rs)"
proof (induction rs arbitrary: errs searched)
  case Nil
  then show ?case by simp
next
  case (Cons r rs)
  show ?case
  proof (cases "skipSearchingRegistryForProxy (nodeClusterID node) (Cluster r) self")
    case True
    with Cons show ?thesis by simp
  next
    case False
    show ?thesis
    proof (cases "reg_GetProxyServiceInstances r node")
      case (Inl e)
      with Cons.prems False
      have "GetProxyServiceInstances_loop rs self node (multierror_Append errs e) (searched @ [r]) = Returns (res, searched')"
        by simp
      from Cons.IH [OF this] obtain n where
        "searched' = (searched @ [r]) @ take n (filter (\<lambda>r. \<not> skipSearchingRegistryForProxy (nodeClusterID node) (Cluster r) self) rs)"
        by blast
      with False show ?thesis
        by (intro exI [of _ "Suc n"]) simp
    next
      case (Inr instances)
      show ?thesis
      proof (cases instances)
        case Nil
        with Cons.prems False Inr
        have "GetProxyServiceInstances_loop rs self node errs (searched @ [r]) = Returns (res, searched')"
          by simp
        from Cons.IH [OF this] obtain n where
          "searched' = (searched @ [r]) @ take n (filter (\<lambda>r. \<not> skipSearchingRegistryForProxy (nodeClusterID node) (Cluster r) self) rs)"
          by blast
        with False show ?thesis
          by (intro exI [of _ "Suc n"]) simp
      next
        case (Cons i0 rest)
        with Cons.prems False Inr have "searched' = searched @ [r]"
          by (auto simp add: and_then_Returns)
        with False show ?thesis
          by (intro exI [of _ "Suc 0"]) simp
      qed
    qed
  qed
qed

text \<open>
  C6. \<^verbatim>\<open>skipSearchingRegistryForProxy\<close> holds exactly when, after a registry cluster
  identifier equal to "Kubernetes" has been replaced by the configured self cluster
  identifier, the registry's and the proxy's identifiers are both non-empty and differ.
  Whenever \<^verbatim>\<open>GetProxyServiceInstances\<close> returns, the members it has searched are, in
  member order, the first members for which the predicate does not hold: a member for
  which it holds is never searched, and no other member is passed over before the scan
  stops.
\<close>

theorem cluster_affinity_prefilter:
  "skipSearchingRegistryForProxy nodeCluster registryCluster selfCluster
     = ((if registryCluster = ''Kubernetes'' then selfCluster else registryCluster) \<noteq> []
        \<and> nodeCluster \<noteq> []
        \<and> (if registryCluster = ''Kubernetes'' then selfCluster else registryCluster) \<noteq> nodeCluster)
   \<and> (GetProxyServiceInstances c selfCluster node = Returns (res, searched)
        \<longrightarrow> (\<exists>n. searched
                    = take n (filter (\<lambda>r. \<not> skipSearchingRegistryForProxy (nodeClusterID node)
                                              (Cluster r) selfCluster)
                                (registries c))))"
proof (rule conjI)
  show "skipSearchingRegistryForProxy nodeCluster registryCluster selfCluster
     = ((if registryCluster = ''Kubernetes'' then selfCluster else registryCluster) \<noteq> []
        \<and> nodeCluster \<noteq> []
        \<and> (if registryCluster = ''Kubernetes'' then selfCluster else registryCluster) \<noteq> nodeCluster)"
    by (simp add: skipSearchingRegistryForProxy_def serviceregistry_Kubernetes_def)
next
  show "GetProxyServiceInstances c selfCluster node = Returns (res, searched)
        \<longrightarrow> (\<exists>n. searched
                    = take n (filter (\<lambda>r. \<not> skipSearchingRegistryForProxy (nodeClusterID node)
                                              (Cluster r) selfCluster)
                                (registries c)))"
  proof
    assume r: "GetProxyServiceInstances c selfCluster node = Returns (res, searched)"
    then obtain rs c' where g: "GetRegistries c = Returns (rs, c')"
      by (cases "GetRegistries c") (auto simp add: GetProxyServiceInstances_def)
    with GetRegistries_Returns have rs: "rs = registries c" by blast
    from r g obtain res' where
      "GetProxyServiceInstances_loop rs selfCluster node None [] = Returns (res', searched)"
      by (auto simp add: GetProxyServiceInstances_def and_then_Returns)
    from GetProxyServiceInstances_loop_searched [OF this] rs
    show "\<exists>n. searched
                    = take n (filter (\<lambda>r. \<not> skipSearchingRegistryForProxy (nodeClusterID node)
                                              (Cluster r) selfCluster)
                                (registries c))"
      by simp
  qed
qed

text \<open>
  The theorem at a proxy of cluster \<open>east\<close> with self cluster identifier \<open>east\<close>: the
  member \<open>west\<close> is skipped, the members \<open>Kubernetes\<close> and the one without cluster
  identifier are searched.
\<close>

theorem cluster_affinity_examples:
  "skipSearchingRegistryForProxy ''east'' ''west'' ''east''
   \<and> \<not> skipSearchingRegistryForProxy ''east'' ''Kubernetes'' ''east''
   \<and> skipSearchingRegistryForProxy ''east'' ''Kubernetes'' ''west''
   \<and> \<not> skipSearchingRegistryForProxy [] ''west'' ''east''
   \<and> \<not> skipSearchingRegistryForProxy ''east'' [] ''east''
   \<and> GetProxyServiceInstances
        (controller_of 3 [mock_registry ''west'', mock_registry ''Kubernetes'', mock_registry []])
        ''east'' east_proxy
      = Returns (([], None, east_proxy), [mock_registry ''Kubernetes'', mock_registry []])
   \<and> (\<exists>n. [mock_registry ''Kubernetes'', mock_registry []]
           = take n (filter (\<lambda>r. \<not> skipSearchingRegistryForProxy (nodeClusterID east_proxy)
                                     (Cluster r) ''east'')
                       (registries (controller_of 3 [mock_registry ''west'', mock_registry ''Kubernetes'',
                                                      mock_registry []]))))"
proof -
  let ?c = "controller_of 3 [mock_registry ''west'', mock_registry ''Kubernetes'', mock_registry []]"
  note t = cluster_affinity_prefilter
  have 1: "skipSearchingRegistryForProxy ''east'' ''west'' ''east''"
    using t [of "''east''" "''west''" "''east''"] by simp
  have 2: "\<not> skipSearchingRegistryForProxy ''east'' ''Kubernetes'' ''east''"
    using t [of "''east''" "''Kubernetes''" "''east''"] by simp
  have 3: "skipSearchingRegistryForProxy ''east'' ''Kubernetes'' ''west''"
    using t [of "''east''" "''Kubernetes''" "''west''"] by simp
  have 4: "\<not> skipSearchingRegistryForProxy [] ''west'' ''east''"
    using t [of "[]" "''west''" "''east''"] by simp
  have 5: "\<not> skipSearchingRegistryForProxy ''east'' [] ''east''"
    using t [of "''east''" "[]" "''east''"] by simp
  have 6: "GetProxyServiceInstances ?c ''east'' east_proxy
      = Returns (([], None, east_proxy), [mock_registry ''Kubernetes'', mock_registry []])"
    by (simp add: GetProxyServiceInstances_def GetRegistries_def RWMutex_RLock_def RWMutex_RUnlock_def
          controller_of_def unlocked_def mock_registry_def east_proxy_def nodeClusterID_def
          skipSearchingRegistryForProxy_def serviceregistry_Kubernetes_def)
  from t [where c = ?c and selfCluster = "''east''" and node = east_proxy] 6
  have 7: "\<exists>n. [mock_registry ''Kubernetes'', mock_registry []]
           = take n (filter (\<lambda>r. \<not> skipSearchingRegistryForProxy (nodeClusterID east_proxy)
                                     (Cluster r) ''east'')
                       (registries ?c))"
    by blast
  from 1 2 3 4 5 6 7 show ?thesis by blast
qed

section \<open>Assignments to nil maps\<close>

text \<open>
  C10. The merge is not total. When the first-sighted cluster-scoped service has a nil
  ClusterExternalAddresses map, its deep copy has a nil map too; the second member's
  service has a non-nil one, the guard looks at the source only, and the assignment to
  an entry of the copy's nil map panics, in \<^verbatim>\<open>Services\<close> and in \<^verbatim>\<open>GetService\<close>. The
  same happens with ClusterExternalPorts.
\<close>

theorem merge_panics_on_nil_canonical_map:
  "Services two_clusters (store_of nil_addresses_objs) = Panics
   \<and> GetService two_clusters ''h'' (store_of nil_addresses_objs) = Panics
   \<and> Services two_clusters (store_of nil_ports_objs) = Panics
   \<and> GetService two_clusters ''h'' (store_of nil_ports_objs) = Panics"
  by (simp add: example_defs model_defs)

end
